theory Spec2Isabelle
  imports Complex_Main
begin

section \<open>Core benchmark functions of \<^verbatim>\<open>nevergrad/functions/corefuncs.py\<close>\<close>

text \<open>
  The module maps a vector to a score. Vectors are lists of reals (the coordinates of a
  one-dimensional numpy array of finite float64 values), and a finite floating-point value
  is read as the real it denotes. What is kept of IEEE arithmetic is what changes the kind
  of a result: the values \<open>+inf\<close>, \<open>-inf\<close> and \<open>nan\<close>, the rules by which numpy produces and
  propagates them, and the overflow of a result that leaves the finite range, to an
  infinity in numpy's and Python's arithmetic and to \<^verbatim>\<open>OverflowError\<close> in Python's float
  power. That overflow is in the operations on \<open>npfloat\<close> and in the power; the ellipsoid
  and the finite branches of the deceptive functions are exact real arithmetic. Rounding
  inside the finite range is modelled where a law compares two computations that round
  differently, in the translates of the sphere; elsewhere a finite result is given as the
  exact value, which the float of the program approximates.
\<close>

subsection \<open>Errors and numeric values\<close>

text \<open>
  The exceptions a call can end with: a failed \<^verbatim>\<open>assert\<close>, an index out of range, a float
  power out of range, and the two failures of the registry.
\<close>

datatype error = AssertionError | IndexError | OverflowError | DuplicateName | NotFound

text \<open>
  A float64 as numpy computes it. The two signed zeros are both \<open>Fin 0\<close>; a division of a
  non-zero value by zero is taken with the sign of the dividend, as for \<open>+0.0\<close>.
\<close>

datatype npfloat = Fin real | PInf | NInf | NaN

text \<open>
  Where a result in round-to-nearest becomes infinite: halfway between the largest finite
  float64, \<open>2^1024 - 2^971\<close>, and \<open>2^1024\<close>, the tie going to the even neighbour, which is the
  infinity.
\<close>

definition float64_overflow :: real where
  "float64_overflow = 2 ^ 1024 - 2 ^ 970"

text \<open>
  The float64 result of an operation on finite values whose exact result is \<open>r\<close>: an
  infinity from the overflow point on, and otherwise \<open>r\<close> itself, for the float nearest
  to it.
\<close>

definition np_fin :: "real \<Rightarrow> npfloat" where
  "np_fin r =
     (if float64_overflow \<le> r then PInf
      else if r \<le> - float64_overflow then NInf
      else Fin r)"

fun np_add :: "npfloat \<Rightarrow> npfloat \<Rightarrow> npfloat" where
  "np_add NaN _ = NaN"
| "np_add _ NaN = NaN"
| "np_add (Fin a) (Fin b) = np_fin (a + b)"
| "np_add PInf NInf = NaN"
| "np_add NInf PInf = NaN"
| "np_add PInf _ = PInf"
| "np_add _ PInf = PInf"
| "np_add NInf _ = NInf"
| "np_add _ NInf = NInf"

text \<open>The sign of a value, for the sign of an infinite product or quotient.\<close>

fun np_sign :: "npfloat \<Rightarrow> int" where
  "np_sign (Fin a) = (if a < 0 then - 1 else if a = 0 then 0 else 1)"
| "np_sign PInf = 1"
| "np_sign NInf = - 1"
| "np_sign NaN = 0"

definition np_inf :: "int \<Rightarrow> npfloat" where
  "np_inf s = (if s < 0 then NInf else if s = 0 then NaN else PInf)"

fun np_mul :: "npfloat \<Rightarrow> npfloat \<Rightarrow> npfloat" where
  "np_mul NaN _ = NaN"
| "np_mul _ NaN = NaN"
| "np_mul (Fin a) (Fin b) = np_fin (a * b)"
| "np_mul a b = np_inf (np_sign a * np_sign b)"

text \<open>
  numpy's true division: dividing by zero is no exception (a warning at most) and gives an
  infinity, or \<open>nan\<close> for \<open>0/0\<close> and \<open>inf/inf\<close>.
\<close>

fun np_div :: "npfloat \<Rightarrow> npfloat \<Rightarrow> npfloat" where
  "np_div NaN _ = NaN"
| "np_div _ NaN = NaN"
| "np_div (Fin a) (Fin b) = (if b \<noteq> 0 then np_fin (a / b) else np_inf (np_sign (Fin a)))"
| "np_div (Fin a) PInf = Fin 0"
| "np_div (Fin a) NInf = Fin 0"
| "np_div a (Fin b) = np_inf (np_sign a * (if b < 0 then - 1 else 1))"
| "np_div a b = NaN"

text \<open>\<^verbatim>\<open>abs\<close> of a float.\<close>

fun np_abs :: "npfloat \<Rightarrow> npfloat" where
  "np_abs (Fin a) = Fin \<bar>a\<bar>"
| "np_abs PInf = PInf"
| "np_abs NInf = PInf"
| "np_abs NaN = NaN"

text \<open>\<^verbatim>\<open>np.cos\<close>: the cosine of an infinity is \<open>nan\<close>.\<close>

fun np_cos :: "npfloat \<Rightarrow> npfloat" where
  "np_cos (Fin a) = Fin (cos a)"
| "np_cos _ = NaN"

text \<open>\<^verbatim>\<open>a.dot(b)\<close> on arrays that may hold non-finite values.\<close>

definition np_dot :: "npfloat list \<Rightarrow> npfloat list \<Rightarrow> npfloat" where
  "np_dot a b = foldl np_add (Fin 0) (map2 np_mul a b)"

text \<open>
  \<^verbatim>\<open>a.dot(b)\<close> on arrays of finite values. Every call in the module applies it to two
  arrays computed from the same vector, so the lengths agree.
\<close>

definition dot :: "real list \<Rightarrow> real list \<Rightarrow> real" where
  "dot a b = sum_list (map2 (*) a b)"

text \<open>
  Python's \<^verbatim>\<open>round\<close> with one argument: the nearest integer, a tie going to the even
  neighbour.
\<close>

definition py_round :: "real \<Rightarrow> int" where
  "py_round w =
     (let f = \<lfloor>w\<rfloor>; d = w - of_int f
      in if d < 1 / 2 then f else if 1 / 2 < d then f + 1 else if even f then f else f + 1)"

text \<open>Python's \<^verbatim>\<open>int\<close> of a float: truncation towards zero.\<close>

definition py_int :: "real \<Rightarrow> int" where
  "py_int v = (if 0 \<le> v then \<lfloor>v\<rfloor> else \<lceil>v\<rceil>)"

text \<open>
  Python's power of a float, \<^verbatim>\<open>v ** n\<close> with \<open>n\<close> a natural number: unlike the other
  operations it raises \<^verbatim>\<open>OverflowError\<close> when the result leaves the finite range.
\<close>

definition py_float_pow :: "real \<Rightarrow> nat \<Rightarrow> error + real" where
  "py_float_pow v n =
     (if float64_overflow \<le> \<bar>v ^ n\<bar> then Inl OverflowError else Inr (v ^ n))"

text \<open>
  Rounding to float64, to the nearest and a tie to the even neighbour. A value other than
  zero lies in a binade \<open>2^e \<le> |r| < 2^(e+1)\<close>, whose floats are the multiples of
  \<open>2^(e-52)\<close>; below \<open>2^-1022\<close> the spacing stays that of the lowest binade.
\<close>

definition float64_exponent :: "real \<Rightarrow> int" where
  "float64_exponent r = max \<lfloor>log 2 \<bar>r\<bar>\<rfloor> (- 1022)"

definition float64_ulp :: "real \<Rightarrow> real" where
  "float64_ulp r = 2 powr real_of_int (float64_exponent r - 52)"

definition round64 :: "real \<Rightarrow> real" where
  "round64 r =
     (if r = 0 then 0
      else real_of_int (py_round (r / float64_ulp r)) * float64_ulp r)"

subsection \<open>The discrete cores\<close>

text \<open>
  \<^verbatim>\<open>_onemax\<close>: \<^verbatim>\<open>len(x) - sum(1 if int(round(w)) == 1 else 0 for w in x)\<close>.
  (An Isabelle name cannot start with an underscore, hence the suffix.)
\<close>

definition onemax_core :: "real list \<Rightarrow> int" where
  "onemax_core x = int (length x) - sum_list (map (\<lambda>w. if py_round w = 1 then 1 else 0) x)"

text \<open>
  \<^verbatim>\<open>_leadingones\<close>: the loop over \<^verbatim>\<open>enumerate(list(x))\<close>, with \<open>n\<close> the length of the
  whole list, \<open>i\<close> the index reached and \<open>w\<close> the element \<^verbatim>\<open>x_\<close>.
\<close>

fun leadingones_loop :: "nat \<Rightarrow> nat \<Rightarrow> real list \<Rightarrow> int" where
  "leadingones_loop n i [] = 0"
| "leadingones_loop n i (w # rest) =
     (if py_round w \<noteq> 1 then int n - int i else leadingones_loop n (Suc i) rest)"

definition leadingones_core :: "real list \<Rightarrow> int" where
  "leadingones_core x = leadingones_loop (length x) 0 x"

text \<open>\<^verbatim>\<open>_jump\<close>; \<open>ones\<close> is the source's variable \<^verbatim>\<open>o\<close>.\<close>

definition jump_core :: "real list \<Rightarrow> int" where
  "jump_core x =
     (let n = int (length x); m = n div 4; ones = n - onemax_core x
      in if ones = n \<or> ones \<le> n - m then n - m - ones else ones)"

text \<open>
  The count the specification words for onemax: the number of coordinates that do not
  round to 1, taken from the length.
\<close>

definition onemax_spec :: "real list \<Rightarrow> int" where
  "onemax_spec x = int (length x) - int (length (filter (\<lambda>w. py_round w \<noteq> 1) x))"

subsection \<open>The delayed sphere\<close>

text \<open>\<^verbatim>\<open>DelayedSphere.__call__\<close>: \<^verbatim>\<open>float(np.sum(x ** 2))\<close>.\<close>

definition DelayedSphere_call :: "real list \<Rightarrow> npfloat" where
  "DelayedSphere_call x = foldl np_add (Fin 0) (map (\<lambda>v. np_fin (v ^ 2)) x)"

text \<open>
  \<^verbatim>\<open>DelayedSphere.get_postponing_delay\<close>. \<open>args\<close> is the tuple of positional arguments of
  the call, \<open>kwargs\<close> its keyword arguments and \<open>val\<close> its result (the source's
  \<^verbatim>\<open>value\<close>); the last two are not read. \<^verbatim>\<open>args[0]\<close> and \<^verbatim>\<open>x[0]\<close> raise on an empty
  tuple or vector. The quotient \<^verbatim>\<open>1.0 / x[0]\<close> is a float64 division: for a coordinate
  close enough to zero it overflows to an infinity, and so does the delay.
\<close>

definition get_postponing_delay ::
    "real list list \<Rightarrow> (string \<rightharpoonup> real list) \<Rightarrow> real \<Rightarrow> error + npfloat" where
  "get_postponing_delay args kwargs val =
     (case args of
        [] \<Rightarrow> Inl IndexError
      | x # _ \<Rightarrow>
          (case x of
             [] \<Rightarrow> Inl IndexError
           | x0 # _ \<Rightarrow>
               Inr (if x0 \<noteq> 0
                    then np_div (np_abs (np_div (Fin 1) (Fin x0))) (Fin 1000)
                    else Fin 0)))"

text \<open>
  The delay as the specification words it, a real whatever the first coordinate:
  \<open>|1/x[0]|/1000\<close>, and 0 at zero.
\<close>

definition delay_spec :: "real list \<Rightarrow> real" where
  "delay_spec x = (if x ! 0 \<noteq> 0 then \<bar>1 / x ! 0\<bar> / 1000 else 0)"

subsection \<open>The sphere and its translates\<close>

text \<open>
  \<^verbatim>\<open>sphere\<close>: \<^verbatim>\<open>x.dot(x)\<close>, a sum of squares that overflows to \<open>+inf\<close>. The assertion
  \<^verbatim>\<open>x.ndim == 1\<close> holds of every vector, a list having one axis. The products and their
  running sum are not rounded here, numpy leaving the order of the accumulation to its
  BLAS; the laws of the sphere below compare it with itself on equal vectors, or take it
  where the sum is exact.
\<close>

definition sphere :: "real list \<Rightarrow> npfloat" where
  "sphere x = np_dot (map Fin x) (map Fin x)"

text \<open>
  \<^verbatim>\<open>x - c\<close> for an array \<open>x\<close> and a scalar \<open>c\<close>: each difference is rounded to float64. (For
  finite floats and the shifts 1, 2 and 4 of the module the difference stays finite.)
\<close>

definition np_sub_scalar :: "real list \<Rightarrow> real \<Rightarrow> real list" where
  "np_sub_scalar x c = map (\<lambda>v. round64 (v - c)) x"

definition sphere1 :: "real list \<Rightarrow> npfloat" where
  "sphere1 x = sphere (np_sub_scalar x 1)"

definition sphere2 :: "real list \<Rightarrow> npfloat" where
  "sphere2 x = sphere (np_sub_scalar x 2)"

definition sphere4 :: "real list \<Rightarrow> npfloat" where
  "sphere4 x = sphere (np_sub_scalar x 4)"

text \<open>
  The vector \<open>x + c\<close>, each sum rounded to float64, and the zero vector of dimension \<open>d\<close>:
  the inputs of the sphere laws.
\<close>

definition np_add_scalar :: "real list \<Rightarrow> real \<Rightarrow> real list" where
  "np_add_scalar x c = map (\<lambda>v. round64 (v + c)) x"

definition zeros :: "nat \<Rightarrow> real list" where
  "zeros d = replicate d 0"

subsection \<open>Ill-conditioned functions\<close>

text \<open>
  \<^verbatim>\<open>altcigar\<close>: \<^verbatim>\<open>float(x[-1]) ** 2 + 1000000.0 * sphere(x[:-1])\<close>. Reading \<^verbatim>\<open>x[-1]\<close> of an
  empty vector raises, and so does the power, a Python float power, when the square
  overflows; the product and the sum overflow to \<open>+inf\<close>.
\<close>

definition altcigar :: "real list \<Rightarrow> error + npfloat" where
  "altcigar x =
     (if x = [] then Inl IndexError
      else
        (case py_float_pow (last x) 2 of
           Inl e \<Rightarrow> Inl e
         | Inr p \<Rightarrow> Inr (np_add (Fin p) (np_mul (Fin 1000000) (sphere (butlast x))))))"

text \<open>\<^verbatim>\<open>cigar\<close>: \<^verbatim>\<open>float(x[0]) ** 2 + 1000000.0 * sphere(x[1:])\<close>, likewise.\<close>

definition cigar :: "real list \<Rightarrow> error + npfloat" where
  "cigar x =
     (case x of
        [] \<Rightarrow> Inl IndexError
      | x0 # rest \<Rightarrow>
          (case py_float_pow x0 2 of
             Inl e \<Rightarrow> Inl e
           | Inr p \<Rightarrow> Inr (np_add (Fin p) (np_mul (Fin 1000000) (sphere rest)))))"

text \<open>
  The cigar as the specification words it: the square of the first coordinate scaled by
  \<open>10^6\<close>, plus the sphere of the other coordinates.
\<close>

definition cigar_spec :: "real list \<Rightarrow> real" where
  "cigar_spec x = 1000000 * (x ! 0) ^ 2 + dot (tl x) (tl x)"

text \<open>
  \<^verbatim>\<open>np.linspace(start, stop, num)\<close>: \<open>num\<close> evenly spaced samples, the step being
  \<open>(stop - start) / (num - 1)\<close> and the last sample set to \<open>stop\<close> itself; one sample is
  \<open>start\<close>, and no sample is the empty array.
\<close>

definition linspace :: "real \<Rightarrow> real \<Rightarrow> nat \<Rightarrow> real list" where
  "linspace start stop num =
     (if num = 0 then []
      else if num = 1 then [start]
      else (map (\<lambda>i. start + real i * ((stop - start) / real (num - 1))) [0..<num])
             [num - 1 := stop])"

text \<open>
  \<^verbatim>\<open>ellipsoid\<close>: the weights \<^verbatim>\<open>10 ** np.linspace(0, 6, dim)\<close> against \<^verbatim>\<open>x ** 2\<close>.
\<close>

definition ellipsoid :: "real list \<Rightarrow> real" where
  "ellipsoid x =
     (let dim = length x;
          weights = map (\<lambda>e. 10 powr e) (linspace 0 6 dim)
      in dot weights (map (\<lambda>v. v ^ 2) x))"

text \<open>\<^verbatim>\<open>altellipsoid\<close>: \<^verbatim>\<open>ellipsoid(y[::-1])\<close>.\<close>

definition altellipsoid :: "real list \<Rightarrow> real" where
  "altellipsoid y = ellipsoid (rev y)"

text \<open>The first and the last standard basis vector of dimension \<open>d\<close>.\<close>

definition basis_first :: "nat \<Rightarrow> real list" where
  "basis_first d = (zeros d)[0 := 1]"

definition basis_last :: "nat \<Rightarrow> real list" where
  "basis_last d = (zeros d)[d - 1 := 1]"

subsection \<open>Multimodal functions\<close>

text \<open>
  \<^verbatim>\<open>hm\<close>: \<^verbatim>\<open>(x ** 2).dot(1.1 + np.cos(1.0 / x))\<close>. The power and the division are numpy's,
  coordinate by coordinate, with nothing in front of the division for a coordinate that
  is zero.
\<close>

definition hm :: "real list \<Rightarrow> npfloat" where
  "hm x =
     np_dot (map (\<lambda>v. np_fin (v ^ 2)) x)
            (map (\<lambda>v. np_add (Fin 1.1) (np_cos (np_div (Fin 1) (Fin v)))) x)"

text \<open>
  \<^verbatim>\<open>deceptiveillcond\<close>. The conditional expression tests \<^verbatim>\<open>x[0] != 0.0\<close> before it
  evaluates the quotient, so the maximum is over finite values.
\<close>

definition deceptiveillcond :: "real list \<Rightarrow> error + npfloat" where
  "deceptiveillcond x =
     (if \<not> 2 \<le> length x then Inl AssertionError
      else Inr (if x ! 0 \<noteq> 0
                then Fin (max (max \<bar>arctan (x ! 1 / x ! 0)\<bar> (sqrt ((x ! 0) ^ 2 + (x ! 1) ^ 2)))
                              (if 0 < x ! 0 then 1 else 0))
                else PInf))"

text \<open>\<^verbatim>\<open>deceptivepath\<close>.\<close>

definition deceptivepath :: "real list \<Rightarrow> error + real" where
  "deceptivepath x =
     (if \<not> 2 \<le> length x then Inl AssertionError
      else
        let distance = sqrt ((x ! 0) ^ 2 + (x ! 1) ^ 2)
        in if distance = 0 then Inr 0
           else
             let angle = (if x ! 1 \<noteq> 0 then arctan (x ! 0 / x ! 1) else pi / 2);
                 invdistance = (if 0 < distance then 1 / distance else 0)
             in if 0.1 < \<bar>cos invdistance - angle\<bar> then Inr 1 else Inr distance)"

text \<open>\<^verbatim>\<open>deceptivemultimodal\<close>: as \<^verbatim>\<open>deceptivepath\<close>, the inverse distance truncated.\<close>

definition deceptivemultimodal :: "real list \<Rightarrow> error + real" where
  "deceptivemultimodal x =
     (if \<not> 2 \<le> length x then Inl AssertionError
      else
        let distance = sqrt ((x ! 0) ^ 2 + (x ! 1) ^ 2)
        in if distance = 0 then Inr 0
           else
             let angle = (if x ! 1 \<noteq> 0 then arctan (x ! 0 / x ! 1) else pi / 2);
                 invdistance = (if 0 < distance then real_of_int (py_int (1 / distance)) else 0)
             in if 0.1 < \<bar>cos invdistance - angle\<bar> then Inr 1 else Inr distance)"

subsection \<open>The registry\<close>

text \<open>
  Modelled from the spec: the class \<^verbatim>\<open>Registry\<close> of \<^verbatim>\<open>nevergrad/common/decorators.py\<close>,
  which the module imports and which is not among the sources. The specification gives it
  as a mapping from a unique name to a callable and a no-transform flag, false by default,
  with \<^verbatim>\<open>register\<close> failing with \<open>DuplicateName\<close> on a name that is taken, \<^verbatim>\<open>get\<close> failing
  with \<open>NotFound\<close> on a name that is not there, and \<^verbatim>\<open>names\<close> returning the names in the
  order of registration. The registry is a list of entries, oldest first.
\<close>

record 'a registry_entry =
  name :: string
  callable :: 'a
  no_transform :: bool

type_synonym 'a registry = "'a registry_entry list"

text \<open>Modelled from the spec: \<^verbatim>\<open>names()\<close>, the names in the order of registration.\<close>

definition names :: "'a registry \<Rightarrow> string list" where
  "names reg = map name reg"

text \<open>
  Modelled from the spec: \<^verbatim>\<open>register_with_info(no_transform)\<close>, which records the flag with
  the callable and fails with \<open>DuplicateName\<close> if the name is taken.
\<close>

definition register_with_info :: "bool \<Rightarrow> string \<Rightarrow> 'a \<Rightarrow> 'a registry \<Rightarrow> error + 'a registry" where
  "register_with_info flag n fn reg =
     (if n \<in> set (names reg) then Inl DuplicateName
      else Inr (reg @ [\<lparr>name = n, callable = fn, no_transform = flag\<rparr>]))"

text \<open>Modelled from the spec: \<^verbatim>\<open>register(name, fn)\<close>, the flag being false.\<close>

definition register :: "string \<Rightarrow> 'a \<Rightarrow> 'a registry \<Rightarrow> error + 'a registry" where
  "register n fn reg = register_with_info False n fn reg"

text \<open>Modelled from the spec: \<^verbatim>\<open>get(name)\<close>, which fails with \<open>NotFound\<close>.\<close>

definition get :: "string \<Rightarrow> 'a registry \<Rightarrow> error + 'a registry_entry" where
  "get n reg =
     (case find (\<lambda>e. name e = n) reg of
        None \<Rightarrow> Inl NotFound
      | Some e \<Rightarrow> Inr e)"

text \<open>
  The callables the module defines at its top level, in the order of the source: the
  instance of \<^verbatim>\<open>DelayedSphere\<close> and every public function, \<^verbatim>\<open>ackley\<close> and \<^verbatim>\<open>schwefel_1_2\<close>
  among them. A callable is registered under its own name, the instance under the name
  of its class.
\<close>

datatype corefunc =
    Fn_DelayedSphere | Fn_sphere | Fn_sphere1 | Fn_sphere2 | Fn_sphere4 | Fn_maxdeceptive |
    Fn_sumdeceptive | Fn_altcigar | Fn_cigar | Fn_altellipsoid | Fn_ellipsoid |
    Fn_rastrigin | Fn_hm | Fn_rosenbrock | Fn_ackley | Fn_schwefel_1_2 | Fn_griewank |
    Fn_deceptiveillcond | Fn_deceptivepath | Fn_deceptivemultimodal | Fn_lunacek |
    Fn_hardonemax | Fn_hardjump | Fn_hardleadingones | Fn_hardonemax5 | Fn_hardjump5 |
    Fn_hardleadingones5 | Fn_onemax | Fn_jump | Fn_leadingones | Fn_onemax5 | Fn_jump5 |
    Fn_leadingones5 | Fn_genzcornerpeak | Fn_minusgenzcornerpeak |
    Fn_genzgaussianpeakintegral | Fn_minusgenzgaussianpeakintegral | Fn_slope | Fn_linear |
    Fn_st0 | Fn_st1 | Fn_st10 | Fn_st100

fun fn_name :: "corefunc \<Rightarrow> string" where
  "fn_name Fn_DelayedSphere = ''DelayedSphere''"
| "fn_name Fn_sphere = ''sphere''"
| "fn_name Fn_sphere1 = ''sphere1''"
| "fn_name Fn_sphere2 = ''sphere2''"
| "fn_name Fn_sphere4 = ''sphere4''"
| "fn_name Fn_maxdeceptive = ''maxdeceptive''"
| "fn_name Fn_sumdeceptive = ''sumdeceptive''"
| "fn_name Fn_altcigar = ''altcigar''"
| "fn_name Fn_cigar = ''cigar''"
| "fn_name Fn_altellipsoid = ''altellipsoid''"
| "fn_name Fn_ellipsoid = ''ellipsoid''"
| "fn_name Fn_rastrigin = ''rastrigin''"
| "fn_name Fn_hm = ''hm''"
| "fn_name Fn_rosenbrock = ''rosenbrock''"
| "fn_name Fn_ackley = ''ackley''"
| "fn_name Fn_schwefel_1_2 = ''schwefel_1_2''"
| "fn_name Fn_griewank = ''griewank''"
| "fn_name Fn_deceptiveillcond = ''deceptiveillcond''"
| "fn_name Fn_deceptivepath = ''deceptivepath''"
| "fn_name Fn_deceptivemultimodal = ''deceptivemultimodal''"
| "fn_name Fn_lunacek = ''lunacek''"
| "fn_name Fn_hardonemax = ''hardonemax''"
| "fn_name Fn_hardjump = ''hardjump''"
| "fn_name Fn_hardleadingones = ''hardleadingones''"
| "fn_name Fn_hardonemax5 = ''hardonemax5''"
| "fn_name Fn_hardjump5 = ''hardjump5''"
| "fn_name Fn_hardleadingones5 = ''hardleadingones5''"
| "fn_name Fn_onemax = ''onemax''"
| "fn_name Fn_jump = ''jump''"
| "fn_name Fn_leadingones = ''leadingones''"
| "fn_name Fn_onemax5 = ''onemax5''"
| "fn_name Fn_jump5 = ''jump5''"
| "fn_name Fn_leadingones5 = ''leadingones5''"
| "fn_name Fn_genzcornerpeak = ''genzcornerpeak''"
| "fn_name Fn_minusgenzcornerpeak = ''minusgenzcornerpeak''"
| "fn_name Fn_genzgaussianpeakintegral = ''genzgaussianpeakintegral''"
| "fn_name Fn_minusgenzgaussianpeakintegral = ''minusgenzgaussianpeakintegral''"
| "fn_name Fn_slope = ''slope''"
| "fn_name Fn_linear = ''linear''"
| "fn_name Fn_st0 = ''st0''"
| "fn_name Fn_st1 = ''st1''"
| "fn_name Fn_st10 = ''st10''"
| "fn_name Fn_st100 = ''st100''"

text \<open>
  The registrations the module makes when it is loaded, in the order of the source: the
  call \<^verbatim>\<open>registry.register(DelayedSphere())\<close>, then one per decorated function, either
  \<^verbatim>\<open>@registry.register\<close> or \<^verbatim>\<open>@registry.register_with_info(no_transfrom=True)\<close>. The
  definitions of \<^verbatim>\<open>ackley\<close> and \<^verbatim>\<open>schwefel_1_2\<close>, between \<^verbatim>\<open>rosenbrock\<close> and \<^verbatim>\<open>griewank\<close>,
  carry no decorator.
\<close>

datatype registration = Register corefunc | Register_with_info bool corefunc

definition registrations :: "registration list" where
  "registrations =
     [Register Fn_DelayedSphere, Register Fn_sphere, Register Fn_sphere1, Register Fn_sphere2,
      Register Fn_sphere4, Register Fn_maxdeceptive, Register Fn_sumdeceptive,
      Register Fn_altcigar, Register Fn_cigar, Register Fn_altellipsoid,
      Register Fn_ellipsoid, Register Fn_rastrigin, Register Fn_hm, Register Fn_rosenbrock,
      Register Fn_griewank, Register Fn_deceptiveillcond, Register Fn_deceptivepath,
      Register Fn_deceptivemultimodal, Register Fn_lunacek,
      Register_with_info True Fn_hardonemax, Register_with_info True Fn_hardjump,
      Register_with_info True Fn_hardleadingones, Register_with_info True Fn_hardonemax5,
      Register_with_info True Fn_hardjump5, Register_with_info True Fn_hardleadingones5,
      Register_with_info True Fn_onemax, Register_with_info True Fn_jump,
      Register_with_info True Fn_leadingones, Register_with_info True Fn_onemax5,
      Register_with_info True Fn_jump5, Register_with_info True Fn_leadingones5,
      Register_with_info True Fn_genzcornerpeak,
      Register_with_info True Fn_minusgenzcornerpeak, Register Fn_genzgaussianpeakintegral,
      Register Fn_minusgenzgaussianpeakintegral, Register Fn_slope, Register Fn_linear,
      Register Fn_st0, Register Fn_st1, Register Fn_st10, Register Fn_st100]"

text \<open>The callable a registration is applied to.\<close>

fun registered_fn :: "registration \<Rightarrow> corefunc" where
  "registered_fn (Register fn) = fn"
| "registered_fn (Register_with_info flag fn) = fn"

text \<open>One registration, under the callable's name.\<close>

fun run_registration :: "registration \<Rightarrow> corefunc registry \<Rightarrow> error + corefunc registry" where
  "run_registration (Register fn) reg = register (fn_name fn) fn reg"
| "run_registration (Register_with_info flag fn) reg =
     register_with_info flag (fn_name fn) fn reg"

text \<open>Loading the module: the first registration that fails ends it.\<close>

fun run_registrations ::
    "registration list \<Rightarrow> corefunc registry \<Rightarrow> error + corefunc registry" where
  "run_registrations [] reg = Inr reg"
| "run_registrations (r # rs) reg =
     (case run_registration r reg of
        Inl e \<Rightarrow> Inl e
      | Inr reg' \<Rightarrow> run_registrations rs reg')"

definition registry :: "error + corefunc registry" where
  "registry = run_registrations registrations []"

section \<open>Properties\<close>

subsection \<open>Rounding\<close>

lemma py_round_0: "py_round 0 = 0"
  by (simp add: py_round_def)

lemma py_round_1: "py_round 1 = 1"
  by (simp add: py_round_def)

subsection \<open>leadingones\<close>

text \<open>The loop returns what is left of the list from the first element that is not a one.\<close>

lemma leadingones_loop_takeWhile:
  "i + length x = n \<Longrightarrow>
   leadingones_loop n i x = int (length x) - int (length (takeWhile (\<lambda>w. py_round w = 1) x))"
  by (induction x arbitrary: i) auto

lemma leadingones_core_takeWhile:
  "leadingones_core x = int (length x) - int (length (takeWhile (\<lambda>w. py_round w = 1) x))"
  by (simp add: leadingones_core_def leadingones_loop_takeWhile)

text \<open>
  Claim C2, as stated, fails at its third value: on \<open>[1,0,0,0]\<close> the loop stops at index 1
  and returns \<open>4 - 1\<close>.
\<close>

theorem leadingones_third_value_counterexample:
  "leadingones_core [1, 0, 0, 0] \<noteq> 1"
  by (simp add: leadingones_core_def py_round_0 py_round_1)

text \<open>
  Claim C2, amended. The leadingones core returns 4 on \<open>[0,1,1,1]\<close>, 0 on \<open>[1,1,1,1]\<close> and
  3 on \<open>[1,0,0,0]\<close>: the length minus the number of leading ones.
\<close>

theorem leadingones_reference_values:
  "leadingones_core [0, 1, 1, 1] = 4 \<and>
   leadingones_core [1, 1, 1, 1] = 0 \<and>
   leadingones_core [1, 0, 0, 0] = 3"
  by (simp add: leadingones_core_def py_round_0 py_round_1)

subsection \<open>onemax\<close>

lemma sum_list_indicator:
  "sum_list (map (\<lambda>w. if P w then 1 else 0) x) = int (length (filter P x))"
  by (induction x) auto

lemma length_filter_split:
  "int (length (filter P x)) + int (length (filter (\<lambda>w. \<not> P w) x)) = int (length x)"
  by (induction x) auto

text \<open>
  Claim C6, as stated, fails: on \<open>[1,1]\<close> the core returns 0, and the length minus the
  number of coordinates other than 1 is 2.
\<close>

theorem onemax_counterexample:
  "onemax_core [1, 1] = 0 \<and> onemax_spec [1, 1] = 2"
  by (simp add: onemax_core_def onemax_spec_def py_round_1)

text \<open>
  Claim C6, amended. For every vector the onemax core returns the length minus the number
  of coordinates that round to 1, which is the number of coordinates that do not round
  to 1.
\<close>

theorem onemax_core_counts:
  "onemax_core x = int (length x) - int (length (filter (\<lambda>w. py_round w = 1) x)) \<and>
   onemax_core x = int (length (filter (\<lambda>w. py_round w \<noteq> 1) x))"
  using length_filter_split [of "\<lambda>w. py_round w = 1" x]
  by (simp add: onemax_core_def sum_list_indicator)

subsection \<open>Overflow and rounding\<close>

lemma float64_overflow_large: "2 ^ 1000 < float64_overflow"
  by (simp add: float64_overflow_def)

lemma float64_overflow_pos: "0 < float64_overflow"
  using float64_overflow_large by (rule less_trans [rotated]) simp

lemma np_fin_0: "np_fin 0 = Fin 0"
  using float64_overflow_pos by (simp add: np_fin_def)

lemma np_fin_in_range: "0 \<le> r \<Longrightarrow> r < float64_overflow \<Longrightarrow> np_fin r = Fin r"
  by (simp add: np_fin_def)

lemma np_fin_nonneg:
  "0 \<le> r \<Longrightarrow> np_fin r = (if float64_overflow \<le> r then PInf else Fin r)"
  using float64_overflow_pos by (simp add: np_fin_def)

lemma np_add_np_fin:
  "0 \<le> a \<Longrightarrow> 0 \<le> b \<Longrightarrow> np_add (np_fin a) (np_fin b) = np_fin (a + b)"
  by (simp add: np_fin_nonneg)

lemma py_round_of_int: "py_round (real_of_int m) = m"
  by (simp add: py_round_def)

lemma float64_exponent_eq:
  assumes "r \<noteq> 0" and "2 powr real_of_int k \<le> \<bar>r\<bar>" and "\<bar>r\<bar> < 2 powr real_of_int (k + 1)"
    and "- 1022 \<le> k"
  shows "float64_exponent r = k"
proof -
  from assms(1) have "0 < \<bar>r\<bar>"
    by simp
  then have "\<lfloor>log 2 \<bar>r\<bar>\<rfloor> = k"
    using assms(2,3) by (simp add: floor_log_eq_powr_iff)
  with assms(4) show ?thesis
    by (simp add: float64_exponent_def)
qed

text \<open>An integer below \<open>2^53\<close> in magnitude is a float64: rounding leaves it as it is.\<close>

lemma round64_int:
  assumes "v \<in> \<int>" and "\<bar>v\<bar> < 2 ^ 53"
  shows "round64 v = v"
proof (cases "v = 0")
  case True
  then show ?thesis
    by (simp add: round64_def)
next
  case False
  from assms(1) obtain n where n: "v = real_of_int n"
    by (auto elim: Ints_cases)
  with False have "n \<noteq> 0"
    by auto
  then have "1 \<le> \<bar>n\<bar>"
    by simp
  then have one: "1 \<le> \<bar>v\<bar>"
    unfolding n by (simp only: of_int_abs [symmetric] of_int_1_le_iff)
  define e where "e = \<lfloor>log 2 \<bar>v\<bar>\<rfloor>"
  from one have "0 \<le> log 2 \<bar>v\<bar>"
    by simp
  then have e0: "0 \<le> e"
    by (simp add: e_def)
  from one assms(2) have "log 2 \<bar>v\<bar> < 53"
    by (simp add: log_less_iff)
  then have e52: "e \<le> 52"
    unfolding e_def by linarith
  from e0 have ex: "float64_exponent v = e"
    by (simp add: float64_exponent_def e_def)
  define k where "k = nat (52 - e)"
  from e52 have ek: "e - 52 = - int k"
    by (simp add: k_def)
  have ulp: "float64_ulp v = 1 / 2 ^ k"
    by (simp add: float64_ulp_def ex ek powr_minus_divide powr_realpow)
  have "v / float64_ulp v = v * 2 ^ k"
    by (simp add: ulp)
  also have "\<dots> = real_of_int (n * 2 ^ k)"
    by (simp add: n)
  finally have "py_round (v / float64_ulp v) = n * 2 ^ k"
    by (simp only: py_round_of_int)
  then have "round64 v = real_of_int (n * 2 ^ k) * (1 / 2 ^ k)"
    using False by (simp only: round64_def ulp if_False)
  also have "\<dots> = v"
    by (simp add: n)
  finally show ?thesis .
qed

text \<open>The sum \<open>2^-60 + 1\<close> is no float64: it rounds to 1.\<close>

lemma round64_absorbed: "round64 (1 / 2 ^ 60 + 1) = 1"
proof -
  let ?r = "1 / 2 ^ 60 + 1 :: real"
  have "float64_exponent ?r = 0"
    by (rule float64_exponent_eq) simp_all
  then have ulp: "float64_ulp ?r = 1 / 2 ^ 52"
    by (simp add: float64_ulp_def powr_minus_divide)
  have "?r / (1 / 2 ^ 52) = 4503599627370496 + 1 / 256"
    by simp
  then have "py_round (?r / float64_ulp ?r) = 4503599627370496"
    by (simp only: ulp) (simp add: py_round_def)
  then have "round64 ?r = real_of_int 4503599627370496 * (1 / 2 ^ 52)"
    by (simp only: round64_def ulp) simp
  then show ?thesis
    by simp
qed

subsection \<open>The delay of the delayed sphere\<close>

lemma delay_of_quotient:
  "np_div (np_abs (np_fin q)) (Fin 1000) =
   (if float64_overflow \<le> \<bar>q\<bar> then PInf else Fin (\<bar>q\<bar> / 1000))"
proof (cases "float64_overflow \<le> \<bar>q\<bar>")
  case True
  then have "float64_overflow \<le> q \<or> q \<le> - float64_overflow"
    by linarith
  then have "np_abs (np_fin q) = PInf"
    using float64_overflow_pos by (auto simp: np_fin_def)
  with True show ?thesis
    by (simp add: np_inf_def)
next
  case False
  then have q: "np_fin q = Fin q"
    by (auto simp: np_fin_def)
  have "0 \<le> \<bar>q\<bar> / 1000" and "\<bar>q\<bar> / 1000 \<le> \<bar>q\<bar>"
    by simp_all
  with False have "np_fin (\<bar>q\<bar> / 1000) = Fin (\<bar>q\<bar> / 1000)"
    by (intro np_fin_in_range) linarith+
  with False q show ?thesis
    by simp
qed

lemma delay_of_quotient_kind:
  "np_div (np_abs (np_fin q)) (Fin 1000) = PInf \<or>
   (\<exists>r. 0 \<le> r \<and> np_div (np_abs (np_fin q)) (Fin 1000) = Fin r)"
proof (cases "float64_overflow \<le> \<bar>q\<bar>")
  case True
  then show ?thesis
    by (simp add: delay_of_quotient)
next
  case False
  have "0 \<le> \<bar>q\<bar> / 1000"
    by simp
  with False show ?thesis
    by (simp only: delay_of_quotient if_False) blast
qed

text \<open>
  Claim C7, as stated, fails: for the vector \<open>[2^-1030, 0]\<close>, whose first coordinate is a
  float64 other than zero, the quotient \<open>1.0 / x[0]\<close> overflows and the delay is \<open>+inf\<close>,
  where \<open>|1/x[0]|/1000\<close> is the real \<open>2^1030/1000\<close>.
\<close>

theorem delay_overflow_counterexample:
  "get_postponing_delay [[1 / 2 ^ 1030, 0]] Map.empty 0 = Inr PInf \<and>
   delay_spec [1 / 2 ^ 1030, 0] = 2 ^ 1030 / 1000"
  by (simp add: get_postponing_delay_def delay_spec_def np_fin_def np_inf_def
        float64_overflow_def)

text \<open>
  Claim C7, amended. On the arguments of a call with a non-empty vector \<open>x\<close>, the delay is 0
  when \<open>x[0]\<close> is zero, \<open>+inf\<close> when \<open>x[0]\<close> is not zero and so small that \<open>1/x[0]\<close> leaves the
  float64 range, and \<open>|1/x[0]|/1000\<close> otherwise; it is 1 at \<open>[0.001, 0]\<close> and 0 at \<open>[0, 0]\<close>;
  and a delay that is returned is a non-negative real or \<open>+inf\<close>, never negative and never
  \<open>nan\<close>.
\<close>

theorem get_postponing_delay_law:
  assumes "x \<noteq> []"
  shows "get_postponing_delay [x] kwargs val =
           Inr (if x ! 0 = 0 then Fin 0
                else if float64_overflow \<le> \<bar>1 / x ! 0\<bar> then PInf
                else Fin (\<bar>1 / x ! 0\<bar> / 1000)) \<and>
         get_postponing_delay [[0.001, 0]] kwargs val = Inr (Fin 1) \<and>
         get_postponing_delay [[0, 0]] kwargs val = Inr (Fin 0) \<and>
         (\<forall>args d. get_postponing_delay args kwargs val = Inr d \<longrightarrow>
            d = PInf \<or> (\<exists>r. 0 \<le> r \<and> d = Fin r))"
proof -
  from assms obtain x0 rest where x: "x = x0 # rest"
    by (cases x) auto
  have law: "get_postponing_delay [x] kwargs val =
           Inr (if x ! 0 = 0 then Fin 0
                else if float64_overflow \<le> \<bar>1 / x ! 0\<bar> then PInf
                else Fin (\<bar>1 / x ! 0\<bar> / 1000))"
    by (simp add: get_postponing_delay_def x delay_of_quotient del: abs_divide)
  have "\<bar>1 / (0.001::real)\<bar> = 1000"
    by simp
  moreover have "\<not> float64_overflow \<le> 1000"
    using float64_overflow_large by simp
  ultimately have milli: "get_postponing_delay [[0.001, 0]] kwargs val = Inr (Fin 1)"
    by (simp add: get_postponing_delay_def delay_of_quotient del: abs_divide)
  have origin: "get_postponing_delay [[0, 0]] kwargs val = Inr (Fin 0)"
    by (simp add: get_postponing_delay_def)
  have kind: "d = PInf \<or> (\<exists>r. 0 \<le> r \<and> d = Fin r)"
    if run: "get_postponing_delay args kwargs val = Inr d" for args d
  proof (cases args)
    case Nil
    with run show ?thesis
      by (simp add: get_postponing_delay_def)
  next
    case (Cons y ys)
    show ?thesis
    proof (cases y)
      case Nil
      with Cons run show ?thesis
        by (simp add: get_postponing_delay_def)
    next
      case (Cons y0 rest')
      show ?thesis
      proof (cases "y0 = 0")
        case True
        with run \<open>args = y # ys\<close> \<open>y = y0 # rest'\<close> have "d = Fin 0"
          by (simp add: get_postponing_delay_def)
        then show ?thesis
          by simp
      next
        case False
        with run \<open>args = y # ys\<close> \<open>y = y0 # rest'\<close>
        have "d = np_div (np_abs (np_fin (1 / y0))) (Fin 1000)"
          by (simp add: get_postponing_delay_def)
        with delay_of_quotient_kind [of "1 / y0"] show ?thesis
          by simp
      qed
    qed
  qed
  from law milli origin kind show ?thesis
    by blast
qed

theorem get_postponing_delay_law_witness:
  "[2, 5::real] \<noteq> [] \<and>
   get_postponing_delay [[2, 5]] Map.empty 29 = Inr (Fin (1 / 2000)) \<and>
   (\<exists>r. 0 \<le> r \<and> Fin (1 / 2000) = Fin r)"
proof -
  have ne: "[2, 5::real] \<noteq> []"
    by simp
  have half: "\<bar>1 / (2::real)\<bar> = 1 / 2"
    by simp
  have small: "\<not> float64_overflow \<le> 1 / 2"
    using float64_overflow_large by simp
  note law = get_postponing_delay_law [OF ne, of Map.empty 29]
  from law small have run: "get_postponing_delay [[2, 5]] Map.empty 29 = Inr (Fin (1 / 2000))"
    by (simp add: half del: abs_divide)
  from law run have "Fin (1 / 2000) = PInf \<or> (\<exists>r. 0 \<le> r \<and> Fin (1 / 2000) = Fin r)"
    by blast
  with ne run show ?thesis
    by simp
qed

subsection \<open>The sphere laws\<close>

lemma dot_self_nonneg: "0 \<le> dot x x"
  by (induction x) (simp_all add: dot_def)

lemma dot_self_Cons: "dot (v # x) (v # x) = v ^ 2 + dot x x"
  by (simp add: dot_def power2_eq_square)

lemma dot_self_snoc: "dot (x @ [v]) (x @ [v]) = dot x x + v ^ 2"
  by (simp add: dot_def power2_eq_square)

lemma dot_self_zeros: "dot (zeros d) (zeros d) = 0"
  by (induction d) (simp_all add: dot_def zeros_def)

lemma foldl_np_add_squares:
  "0 \<le> a \<Longrightarrow>
   foldl np_add (np_fin a) (map2 np_mul (map Fin x) (map Fin x)) = np_fin (a + dot x x)"
proof (induction x arbitrary: a)
  case Nil
  then show ?case
    by (simp add: dot_def)
next
  case (Cons v x)
  have "foldl np_add (np_fin a) (map2 np_mul (map Fin (v # x)) (map Fin (v # x))) =
        foldl np_add (np_add (np_fin a) (np_fin (v * v))) (map2 np_mul (map Fin x) (map Fin x))"
    by simp
  also have "np_add (np_fin a) (np_fin (v * v)) = np_fin (a + v * v)"
    using Cons.prems by (rule np_add_np_fin) simp
  also have "foldl np_add (np_fin (a + v * v)) (map2 np_mul (map Fin x) (map Fin x)) =
             np_fin (a + v * v + dot x x)"
    using Cons.prems by (intro Cons.IH) simp
  finally show ?case
    by (simp add: dot_def add.assoc)
qed

text \<open>The sphere is the sum of the squares, or \<open>+inf\<close> when the sum leaves the range.\<close>

lemma sphere_np_fin: "sphere x = np_fin (dot x x)"
  using foldl_np_add_squares [of 0 x] by (simp add: sphere_def np_dot_def np_fin_0)

lemma sphere_zeros: "sphere (zeros d) = Fin 0"
  by (simp add: sphere_np_fin dot_self_zeros np_fin_0)

lemma sphere_single:
  assumes "\<bar>v\<bar> \<le> 1"
  shows "sphere [v] = Fin (v ^ 2)"
proof -
  from assms have "v ^ 2 \<le> 1"
    by (simp add: abs_le_square_iff [symmetric] power2_eq_square [symmetric] abs_square_le_1)
  with float64_overflow_large have "v ^ 2 < float64_overflow"
    by simp
  then have "np_fin (v ^ 2) = Fin (v ^ 2)"
    by (intro np_fin_in_range) simp_all
  then show ?thesis
    by (simp add: sphere_np_fin dot_def power2_eq_square)
qed

text \<open>
  A vector of integers of magnitude at most \<open>2^52\<close> is translated exactly: the sums with 1,
  2 or 4 are integers below \<open>2^53\<close>, and taking the shift off gives the vector back.
\<close>

lemma exact_translate_int:
  assumes "\<forall>v \<in> set x. v \<in> \<int> \<and> \<bar>v\<bar> \<le> 2 ^ 52" and "c \<in> \<int>" and "\<bar>c\<bar> \<le> 4"
  shows "np_sub_scalar (np_add_scalar x c) c = x"
proof -
  have "round64 (round64 (v + c) - c) = v" if "v \<in> set x" for v
  proof -
    from that assms(1) have v: "v \<in> \<int>" "\<bar>v\<bar> \<le> 2 ^ 52"
      by auto
    from v(2) assms(3) have "\<bar>v + c\<bar> < 2 ^ 53" and "\<bar>v\<bar> < 2 ^ 53"
      by simp_all
    with v(1) assms(2) have "round64 (v + c) = v + c" and "round64 v = v"
      by (simp_all add: round64_int)
    then show ?thesis
      by simp
  qed
  then show ?thesis
    by (simp add: np_sub_scalar_def np_add_scalar_def map_idI)
qed

text \<open>
  Claim C8, as stated, fails in its translates: for \<open>x = [2^-60]\<close> the sum \<open>x + 1\<close> rounds to
  \<open>[1]\<close>, so \<open>sphere1\<close> of it is the sphere of \<open>[0]\<close>, which is 0, and the sphere of \<open>x\<close> is
  \<open>2^-120\<close>.
\<close>

theorem sphere_translate_counterexample:
  "sphere [1 / 2 ^ 60] = Fin (1 / 2 ^ 120) \<and>
   sphere1 (np_add_scalar [1 / 2 ^ 60] 1) = Fin 0"
proof -
  have "sphere [1 / 2 ^ 60] = Fin ((1 / 2 ^ 60) ^ 2)"
    by (rule sphere_single) simp
  moreover have "sphere [0] = Fin (0 ^ 2)"
    by (rule sphere_single) simp
  moreover have "np_add_scalar [1 / 2 ^ 60] 1 = [1]"
    by (simp only: np_add_scalar_def list.map round64_absorbed)
  moreover have "np_sub_scalar [1] 1 = [0]"
    by (simp add: np_sub_scalar_def round64_def)
  ultimately show ?thesis
    by (simp add: sphere1_def power_divide)
qed

text \<open>
  Claim C8, amended. The sphere of the zero vector of any dimension is 0; and for every
  vector \<open>x\<close> that the shifts 1, 2 and 4 translate exactly in float64, \<open>(x + c) - c\<close> being
  \<open>x\<close> again, the sphere of \<open>x\<close> is \<open>sphere1\<close> of \<open>x + 1\<close>, \<open>sphere2\<close> of \<open>x + 2\<close> and \<open>sphere4\<close>
  of \<open>x + 4\<close>.
\<close>

theorem sphere_laws:
  assumes "np_sub_scalar (np_add_scalar x 1) 1 = x"
    and "np_sub_scalar (np_add_scalar x 2) 2 = x"
    and "np_sub_scalar (np_add_scalar x 4) 4 = x"
  shows "sphere (zeros d) = Fin 0 \<and>
         sphere x = sphere1 (np_add_scalar x 1) \<and>
         sphere1 (np_add_scalar x 1) = sphere2 (np_add_scalar x 2) \<and>
         sphere2 (np_add_scalar x 2) = sphere4 (np_add_scalar x 4)"
  using assms by (simp add: sphere1_def sphere2_def sphere4_def sphere_zeros)

theorem sphere_laws_witness:
  "np_sub_scalar (np_add_scalar [3, - 2] 1) 1 = [3, - 2] \<and>
   np_sub_scalar (np_add_scalar [3, - 2] 2) 2 = [3, - 2] \<and>
   np_sub_scalar (np_add_scalar [3, - 2] 4) 4 = [3, - 2] \<and>
   sphere (zeros 2) = Fin 0 \<and>
   sphere [3, - 2] = sphere1 (np_add_scalar [3, - 2] 1) \<and>
   sphere1 (np_add_scalar [3, - 2] 1) = sphere2 (np_add_scalar [3, - 2] 2) \<and>
   sphere2 (np_add_scalar [3, - 2] 2) = sphere4 (np_add_scalar [3, - 2] 4)"
proof -
  have ints: "\<forall>v \<in> set [3, - 2 :: real]. v \<in> \<int> \<and> \<bar>v\<bar> \<le> 2 ^ 52"
    by simp
  have t1: "np_sub_scalar (np_add_scalar [3, - 2] 1) 1 = [3, - 2]"
    using ints by (rule exact_translate_int) simp_all
  have t2: "np_sub_scalar (np_add_scalar [3, - 2] 2) 2 = [3, - 2]"
    using ints by (rule exact_translate_int) simp_all
  have t4: "np_sub_scalar (np_add_scalar [3, - 2] 4) 4 = [3, - 2]"
    using ints by (rule exact_translate_int) simp_all
  from sphere_laws [OF t1 t2 t4, of 2] t1 t2 t4 show ?thesis
    by blast
qed

subsection \<open>The cigar functions\<close>

lemma py_float_pow_in_range:
  assumes "v ^ 2 < float64_overflow"
  shows "py_float_pow v 2 = Inr (v ^ 2)"
proof -
  have "\<bar>v ^ 2\<bar> = v ^ 2"
    by simp
  with assms show ?thesis
    unfolding py_float_pow_def by simp
qed

lemma cigar_value:
  assumes "0 \<le> s" and "p ^ 2 + 1000000 * s < float64_overflow"
  shows "np_add (Fin (p ^ 2)) (np_mul (Fin 1000000) (np_fin s)) = Fin (p ^ 2 + 1000000 * s)"
proof -
  have p: "0 \<le> p ^ 2"
    by simp
  from assms p have s: "s < float64_overflow" and m: "1000000 * s < float64_overflow"
    by linarith+
  from assms(1) s have "np_fin s = Fin s"
    by (rule np_fin_in_range)
  moreover from assms(1) m have "np_fin (1000000 * s) = Fin (1000000 * s)"
    by (intro np_fin_in_range) simp_all
  moreover from assms p have "np_fin (p ^ 2 + 1000000 * s) = Fin (p ^ 2 + 1000000 * s)"
    by (intro np_fin_in_range) simp_all
  ultimately show ?thesis
    by simp
qed

text \<open>
  Where the square of the distinguished coordinate leaves the float64 range, the power
  raises: for instance at \<open>[2^600, 0]\<close>.
\<close>

lemma cigar_overflow_error:
  "float64_overflow \<le> x0 ^ 2 \<Longrightarrow> cigar (x0 # rest) = Inl OverflowError"
  by (simp add: cigar_def py_float_pow_def)

lemma altcigar_overflow_error:
  "x \<noteq> [] \<Longrightarrow> float64_overflow \<le> (last x) ^ 2 \<Longrightarrow> altcigar x = Inl OverflowError"
  by (simp add: altcigar_def py_float_pow_def)

lemma cigar_overflow_example: "cigar [2 ^ 600, 0] = Inl OverflowError"
  by (simp add: cigar_def py_float_pow_def float64_overflow_def)

text \<open>
  Claim C5, as stated, fails: on \<open>[1, 0]\<close> the cigar is 1, and the first coordinate squared
  and scaled by \<open>10^6\<close> plus the sphere of the rest is \<open>10^6\<close>.
\<close>

theorem cigar_scaling_counterexample:
  "cigar [1, 0] = Inr (Fin 1) \<and> cigar_spec [1, 0] = 1000000"
proof -
  have small: "(1::real) ^ 2 + 1000000 * 0 < float64_overflow"
    using float64_overflow_large by (rule less_trans [rotated]) simp
  then have "(1::real) ^ 2 < float64_overflow"
    by simp
  from py_float_pow_in_range [OF this] cigar_value [OF order_refl small] show ?thesis
    by (simp add: cigar_def cigar_spec_def sphere_np_fin dot_def)
qed

text \<open>
  Claim C5, amended. For every vector of length at least 2 and well inside the float64
  range, \<open>10^6\<close> times the sum of its squares being at most \<open>2^1000\<close>, the cigar is the
  square of the first coordinate plus \<open>10^6\<close> times the sphere of the other coordinates,
  and altcigar is the same with the order of the variables reversed: the square of the
  last coordinate plus \<open>10^6\<close> times the sphere of the others.
\<close>

theorem cigar_altcigar_law:
  assumes "2 \<le> length x" and "1000000 * dot x x \<le> 2 ^ 1000"
  shows "cigar x = Inr (Fin ((x ! 0) ^ 2 + 1000000 * dot (tl x) (tl x))) \<and>
         altcigar x = Inr (Fin ((last x) ^ 2 + 1000000 * dot (butlast x) (butlast x)))"
proof -
  from assms(1) obtain x0 rest where x: "x = x0 # rest"
    by (cases x) auto
  then have ne: "x \<noteq> []"
    by simp
  have first: "dot x x = x0 ^ 2 + dot rest rest"
    by (simp add: x dot_self_Cons)
  have "dot (butlast x @ [last x]) (butlast x @ [last x]) =
        dot (butlast x) (butlast x) + (last x) ^ 2"
    by (rule dot_self_snoc)
  with ne have final: "dot x x = dot (butlast x) (butlast x) + (last x) ^ 2"
    by simp
  have r: "0 \<le> dot rest rest" and b: "0 \<le> dot (butlast x) (butlast x)"
    by (rule dot_self_nonneg)+
  have sq: "0 \<le> x0 ^ 2" "0 \<le> (last x) ^ 2"
    by simp_all
  from assms(2) float64_overflow_large have bound: "1000000 * dot x x < float64_overflow"
    by (rule order_le_less_trans)
  from bound first r sq have c1: "x0 ^ 2 < float64_overflow"
    and c2: "x0 ^ 2 + 1000000 * dot rest rest < float64_overflow"
    by linarith+
  from bound final b sq have a1: "(last x) ^ 2 < float64_overflow"
    and a2: "(last x) ^ 2 + 1000000 * dot (butlast x) (butlast x) < float64_overflow"
    by linarith+
  have c: "cigar x = Inr (Fin ((x ! 0) ^ 2 + 1000000 * dot (tl x) (tl x)))"
    by (simp add: cigar_def x py_float_pow_in_range [OF c1] sphere_np_fin
          cigar_value [OF r c2])
  have a: "altcigar x = Inr (Fin ((last x) ^ 2 + 1000000 * dot (butlast x) (butlast x)))"
    using ne
    by (simp add: altcigar_def py_float_pow_in_range [OF a1] sphere_np_fin
          cigar_value [OF b a2])
  from c a show ?thesis
    by simp
qed

theorem cigar_altcigar_law_witness:
  "2 \<le> length [1, 2, 3::real] \<and> 1000000 * dot [1, 2, 3] [1, 2, 3] \<le> 2 ^ 1000 \<and>
   cigar [1, 2, 3] = Inr (Fin 13000001) \<and>
   altcigar [1, 2, 3] = Inr (Fin 5000009)"
  using cigar_altcigar_law [of "[1, 2, 3]"] by (simp add: dot_def)

subsection \<open>The ellipsoid on basis vectors\<close>

lemma dot_zeros: "dot ws (replicate n 0) = 0"
proof (induction n arbitrary: ws)
  case 0
  show ?case
    by (simp add: dot_def)
next
  case (Suc n)
  show ?case
  proof (cases ws)
    case Nil
    then show ?thesis
      by (simp add: dot_def)
  next
    case (Cons w ws')
    with Suc [of ws'] show ?thesis
      by (simp add: dot_def)
  qed
qed

lemma dot_append: "length a = length b \<Longrightarrow> dot (a @ c) (b @ d) = dot a b + dot c d"
  by (simp add: dot_def)

lemma linspace_length: "length (linspace a b n) = n"
  by (simp add: linspace_def)

lemma linspace_first: "2 \<le> n \<Longrightarrow> linspace a b n ! 0 = a"
  by (simp add: linspace_def)

lemma linspace_last: "2 \<le> n \<Longrightarrow> linspace a b n ! (n - 1) = b"
  by (simp add: linspace_def)

lemma length_basis_first: "length (basis_first d) = d"
  by (simp add: basis_first_def zeros_def)

lemma length_basis_last: "length (basis_last d) = d"
  by (simp add: basis_last_def zeros_def)

lemma replicate_update_last: "(replicate (Suc k) a)[k := b] = replicate k a @ [b]"
  by (induction k) simp_all

lemma ellipsoid_basis_first:
  assumes "2 \<le> d"
  shows "ellipsoid (basis_first d) = 1"
proof -
  from assms obtain k where d: "d = Suc k"
    by (cases d) auto
  have sq: "map (\<lambda>v. v ^ 2) (basis_first d) = 1 # replicate k 0"
    by (simp add: basis_first_def zeros_def d)
  define ws where "ws = map (\<lambda>e. 10 powr e) (linspace 0 6 d)"
  have "length ws = Suc k"
    by (simp add: ws_def linspace_length d)
  then obtain w ws' where ws: "ws = w # ws'"
    by (cases ws) auto
  have "w = ws ! 0"
    by (simp add: ws)
  also have "\<dots> = 10 powr (linspace 0 6 d ! 0)"
    unfolding ws_def using assms by (simp add: linspace_length)
  also have "\<dots> = 1"
    using assms by (simp add: linspace_first)
  finally have w: "w = 1" .
  have "ellipsoid (basis_first d) = dot ws (1 # replicate k 0)"
    by (simp add: ellipsoid_def Let_def sq ws_def length_basis_first)
  also have "\<dots> = w + dot ws' (replicate k 0)"
    by (simp add: ws dot_def)
  finally show ?thesis
    by (simp add: w dot_zeros)
qed

lemma ellipsoid_basis_last:
  assumes "2 \<le> d"
  shows "ellipsoid (basis_last d) = 1000000"
proof -
  from assms obtain k where d: "d = Suc k"
    by (cases d) auto
  have bl: "basis_last d = replicate k 0 @ [1]"
    by (simp add: basis_last_def zeros_def d replicate_update_last del: replicate_Suc)
  have sq: "map (\<lambda>v. v ^ 2) (basis_last d) = replicate k 0 @ [1]"
    by (simp add: bl)
  define ws where "ws = map (\<lambda>e. 10 powr e) (linspace 0 6 d)"
  have len: "length ws = Suc k"
    by (simp add: ws_def linspace_length d)
  then have ne: "ws \<noteq> []"
    by auto
  then have split: "ws = butlast ws @ [last ws]"
    by simp
  have "last ws = ws ! (d - 1)"
    using ne len by (simp add: last_conv_nth d)
  also have "\<dots> = 10 powr (linspace 0 6 d ! (d - 1))"
    unfolding ws_def using assms by (simp add: linspace_length)
  also have "\<dots> = 1000000"
    by (simp only: linspace_last [OF assms]) simp
  finally have w: "last ws = 1000000" .
  have "ellipsoid (basis_last d) = dot ws (replicate k 0 @ [1])"
    by (simp add: ellipsoid_def Let_def sq ws_def length_basis_last)
  also have "\<dots> = dot (butlast ws @ [last ws]) (replicate k 0 @ [1])"
    using split by simp
  also have "\<dots> = dot (butlast ws) (replicate k 0) + dot [last ws] [1]"
    by (rule dot_append) (simp add: len)
  also have "dot [last ws] [1] = 1000000"
    by (simp add: dot_def w)
  finally show ?thesis
    by (simp add: dot_zeros)
qed

text \<open>
  Claim C9. For every dimension \<open>d\<close> of at least 2, the ellipsoid of the first standard
  basis vector is 1 and the ellipsoid of the last is \<open>10^6\<close>.
\<close>

theorem ellipsoid_basis_values:
  "2 \<le> d \<Longrightarrow> ellipsoid (basis_first d) = 1 \<and> ellipsoid (basis_last d) = 10 ^ 6"
  by (simp add: ellipsoid_basis_first ellipsoid_basis_last)

theorem ellipsoid_basis_values_witness:
  "(2::nat) \<le> 3 \<and> ellipsoid [1, 0, 0] = 1 \<and> ellipsoid [0, 0, 1] = 10 ^ 6"
  using ellipsoid_basis_values [of 3]
  by (simp add: basis_first_def basis_last_def zeros_def numeral_3_eq_3)

subsection \<open>The deceptive family\<close>

text \<open>
  Claim C3, as stated, fails for \<^verbatim>\<open>deceptiveillcond\<close>: at \<open>[0, 0]\<close> the first coordinate is
  zero, and the function returns \<open>+inf\<close>, not 0.
\<close>

theorem deceptiveillcond_origin_counterexample:
  "deceptiveillcond [0, 0] \<noteq> Inr (Fin 0)"
  by (simp add: deceptiveillcond_def)

text \<open>
  Claim C3, amended. At \<open>[0, 0]\<close>, \<^verbatim>\<open>deceptivepath\<close> and \<^verbatim>\<open>deceptivemultimodal\<close> return 0, and
  \<^verbatim>\<open>deceptiveillcond\<close> returns \<open>+inf\<close>.
\<close>

theorem deceptive_origin_values:
  "deceptivepath [0, 0] = Inr 0 \<and>
   deceptivemultimodal [0, 0] = Inr 0 \<and>
   deceptiveillcond [0, 0] = Inr PInf"
  by (simp add: deceptiveillcond_def deceptivepath_def deceptivemultimodal_def)

text \<open>
  Claim C4. For every vector of length at least 2 whose first coordinate is zero,
  \<^verbatim>\<open>deceptiveillcond\<close> returns \<open>+inf\<close>, whatever the second coordinate.
\<close>

theorem deceptiveillcond_zero_first:
  "2 \<le> length x \<Longrightarrow> x ! 0 = 0 \<Longrightarrow> deceptiveillcond x = Inr PInf"
  by (simp add: deceptiveillcond_def)

theorem deceptiveillcond_zero_first_witness:
  "2 \<le> length [0, 7, 3::real] \<and> [0, 7, 3::real] ! 0 = 0 \<and>
   deceptiveillcond [0, 7, 3] = Inr PInf"
  using deceptiveillcond_zero_first [of "[0, 7, 3]"] by simp

subsection \<open>hm at a zero coordinate\<close>

lemma np_add_NaN_right: "np_add a NaN = NaN"
  by (cases a) simp_all

lemma foldl_np_add_NaN: "foldl np_add NaN ts = NaN"
  by (induction ts) simp_all

lemma foldl_np_add_has_NaN: "NaN \<in> set ts \<Longrightarrow> foldl np_add a ts = NaN"
  by (induction ts arbitrary: a) (auto simp: np_add_NaN_right foldl_np_add_NaN)

lemma hm_term_zero:
  "np_mul (np_fin (0 ^ 2)) (np_add (Fin 1.1) (np_cos (np_div (Fin 1) (Fin 0)))) = NaN"
  by (simp add: np_inf_def np_fin_0)

lemma hm_terms:
  "map2 np_mul (map (\<lambda>v. np_fin (v ^ 2)) x)
     (map (\<lambda>v. np_add (Fin 1.1) (np_cos (np_div (Fin 1) (Fin v)))) x) =
   map (\<lambda>v. np_mul (np_fin (v ^ 2)) (np_add (Fin 1.1) (np_cos (np_div (Fin 1) (Fin v))))) x"
  by (induction x) simp_all

text \<open>A zero anywhere in the vector makes the result \<open>nan\<close>.\<close>

lemma hm_zero_coordinate:
  assumes "0 \<in> set x"
  shows "hm x = NaN"
proof -
  let ?f = "\<lambda>v. np_mul (np_fin (v ^ 2)) (np_add (Fin 1.1) (np_cos (np_div (Fin 1) (Fin v))))"
  from assms have "?f 0 \<in> set (map ?f x)"
    by (rule imageI [of 0 "set x" ?f, folded set_map])
  then have "NaN \<in> set (map ?f x)"
    by (simp only: hm_term_zero)
  then show ?thesis
    unfolding hm_def np_dot_def hm_terms by (rule foldl_np_add_has_NaN)
qed

text \<open>
  Claim C1 says that no registered function returns NaN on a vector of its minimum valid
  length. The registered function \<^verbatim>\<open>hm\<close> does on the vector \<open>[0]\<close>, of length 1: \<open>1.0 / x\<close> is
  \<open>inf\<close> there, its cosine is \<open>nan\<close>, and the product with \<open>0\<close> stays \<open>nan\<close>.
\<close>

theorem hm_zero_vector_is_nan:
  "hm [0] = NaN"
  by (simp add: hm_def np_dot_def np_inf_def np_fin_0)

subsection \<open>What the module registers\<close>

lemma get_NotFound: "get n reg = Inl NotFound \<longleftrightarrow> n \<notin> set (names reg)"
  by (induction reg) (auto simp: get_def names_def split: option.splits)

text \<open>
  Loading the module succeeds, no name being registered twice, and leaves the names of
  the registered callables in the order of the registrations.
\<close>

lemma registry_loaded:
  "\<exists>r. registry = Inr r \<and> names r = map (\<lambda>s. fn_name (registered_fn s)) registrations"
  by (simp add: registry_def registrations_def register_def register_with_info_def names_def)

text \<open>
  Claim C10. \<^verbatim>\<open>ackley\<close> and \<^verbatim>\<open>schwefel_1_2\<close> are defined and never registered: the names of
  the registry the module builds hold neither, and looking either up fails with
  \<open>NotFound\<close>.
\<close>

theorem ackley_schwefel_not_registered:
  "\<exists>r. registry = Inr r \<and>
     ''ackley'' \<notin> set (names r) \<and> ''schwefel_1_2'' \<notin> set (names r) \<and>
     get ''ackley'' r = Inl NotFound \<and> get ''schwefel_1_2'' r = Inl NotFound"
proof -
  from registry_loaded obtain r where r: "registry = Inr r"
    and n: "names r = map (\<lambda>s. fn_name (registered_fn s)) registrations"
    by blast
  have a: "''ackley'' \<notin> set (names r)"
    unfolding n by (simp add: registrations_def)
  have s: "''schwefel_1_2'' \<notin> set (names r)"
    unfolding n by (simp add: registrations_def)
  from a s have "get ''ackley'' r = Inl NotFound" and "get ''schwefel_1_2'' r = Inl NotFound"
    by (simp_all add: get_NotFound)
  with r a s show ?thesis
    by blast
qed

end
